theory Spec2Isabelle
  imports Main
begin

section \<open>The dataset registry of \<^verbatim>\<open>tensorflow_datasets/core/registered.py\<close>\<close>

text \<open>
  The module keeps three dictionaries and one boolean at module level, and a metaclass
  \<^verbatim>\<open>RegisteredDataset\<close> whose \<^verbatim>\<open>__new__\<close> names every class it creates and files it
  in one of the dictionaries. The model passes the module-level state explicitly, returns
  a raised exception as a value next to the state it leaves behind, and takes what the
  module calls but does not define (\<^verbatim>\<open>naming.camelcase_to_snakecase\<close>,
  \<^verbatim>\<open>py_utils.is_notebook\<close>, \<^verbatim>\<open>inspect.isabstract\<close>, and the exceptions of
  \<^verbatim>\<open>ABCMeta.__new__\<close>) as parameters.
\<close>

subsection \<open>Values, class objects, exceptions\<close>

text \<open>
  The values a class body binds, as far as the module looks at them: it stores a string
  under \<^verbatim>\<open>"name"\<close> and tests the truth value of what \<^verbatim>\<open>"IN_DEVELOPMENT"\<close> is bound to.
  A function carries its \<^verbatim>\<open>__isabstractmethod__\<close> flag.
\<close>

datatype pyval = PyNone | PyBool bool | PyInt int | PyStr string | PyFunction bool

text \<open>Python's truth value of an object, as \<^verbatim>\<open>elif class_dict.get(...)\<close> tests it.\<close>

fun truthy :: "pyval \<Rightarrow> bool" where
  "truthy PyNone = False"
| "truthy (PyBool b) = b"
| "truthy (PyInt i) = (i \<noteq> 0)"
| "truthy (PyStr s) = (s \<noteq> [])"
| "truthy (PyFunction f) = True"

text \<open>
  A class object is what \<^verbatim>\<open>type.__new__(cls, cls_name, bases, class_dict)\<close> builds it
  from: its name, its base classes and a copy of the class body's dictionary.
\<close>

datatype builder_cls =
  Class (cls_name: string) (bases: "builder_cls list") (class_dict: "string \<rightharpoonup> pyval")

text \<open>
  \<^verbatim>\<open>dict.get(key)\<close> with no default: \<^verbatim>\<open>None\<close> for a missing key.
\<close>

definition dict_get :: "(string \<rightharpoonup> pyval) \<Rightarrow> string \<Rightarrow> pyval" where
  "dict_get d k = (case d k of None \<Rightarrow> PyNone | Some v \<Rightarrow> v)"

fun first_some :: "'a option list \<Rightarrow> 'a option" where
  "first_some [] = None"
| "first_some (None # xs) = first_some xs"
| "first_some (Some v # xs) = Some v"

text \<open>
  Attribute lookup on a class object: the class's own dictionary first, then the base
  classes from left to right, each with its own bases. On a chain of single inheritance,
  the only shape the theorems below use it on, this is Python's method resolution order.
\<close>

fun class_getattr :: "builder_cls \<Rightarrow> string \<Rightarrow> pyval option" where
  "class_getattr (Class n bs d) a =
     (case d a of
        Some v \<Rightarrow> Some v
      | None \<Rightarrow> first_some (map (\<lambda>b. class_getattr b a) bs))"

text \<open>
  The module raises \<^verbatim>\<open>ValueError\<close> with one of three messages. The call of
  \<^verbatim>\<open>super().__new__\<close> on line 58 can raise too: \<^verbatim>\<open>TypeError\<close> (bases with no consistent
  method resolution order, for one) or a \<^verbatim>\<open>ValueError\<close> of its own (a \<^verbatim>\<open>__slots__\<close>
  entry that clashes with a class variable). \<open>OtherError\<close> stands for an exception that
  client code raises inside a \<^verbatim>\<open>with skip_registration()\<close> block.
\<close>

datatype exn = ValueError string | TypeError string | OtherError string

subsection \<open>Module-level state and imported functions\<close>

text \<open>
  \<^verbatim>\<open>_DATASET_REGISTRY\<close>, \<^verbatim>\<open>_ABSTRACT_DATASET_REGISTRY\<close>, \<^verbatim>\<open>_IN_DEVELOPMENT_REGISTRY\<close>
  and \<^verbatim>\<open>_skip_registration\<close> (the leading underscore is not part of a HOL name; the
  flag's name is taken by the context manager).
\<close>

record registry_state =
  DATASET_REGISTRY :: "string \<rightharpoonup> builder_cls"
  ABSTRACT_DATASET_REGISTRY :: "string \<rightharpoonup> builder_cls"
  IN_DEVELOPMENT_REGISTRY :: "string \<rightharpoonup> builder_cls"
  skip_registration_flag :: bool

text \<open>The state after the module has been imported: lines 26, 30, 34 and 38.\<close>

definition initial_state :: registry_state where
  "initial_state =
     \<lparr>DATASET_REGISTRY = Map.empty, ABSTRACT_DATASET_REGISTRY = Map.empty,
      IN_DEVELOPMENT_REGISTRY = Map.empty, skip_registration_flag = False\<rparr>"

text \<open>
  What the module calls: \<^verbatim>\<open>naming.camelcase_to_snakecase\<close>, \<^verbatim>\<open>py_utils.is_notebook()\<close>,
  \<^verbatim>\<open>inspect.isabstract\<close>, and \<^verbatim>\<open>super().__new__\<close>, which is \<^verbatim>\<open>ABCMeta.__new__\<close>: it
  either raises or returns the class object built from its three arguments, and
  \<open>type_new_raises\<close> says which, with the exception it raises. Their code is not part of
  the module, so every general theorem holds for any choice of the four.
\<close>

record env =
  camelcase_to_snakecase :: "string \<Rightarrow> string"
  is_notebook :: bool
  isabstract :: "builder_cls \<Rightarrow> bool"
  type_new_raises :: "string \<Rightarrow> builder_cls list \<Rightarrow> (string \<rightharpoonup> pyval) \<Rightarrow> exn option"

subsection \<open>\<^verbatim>\<open>RegisteredDataset.__new__\<close>\<close>

definition registered_msg :: "string \<Rightarrow> string" where
  "registered_msg name = ''Dataset with name '' @ name @ '' already registered.''"

definition in_development_msg :: "string \<Rightarrow> string" where
  "in_development_msg name =
     ''Dataset with name '' @ name @ '' already registered as in development.''"

definition abstract_msg :: "string \<Rightarrow> string" where
  "abstract_msg name = ''Dataset with name '' @ name @ '' already registered as abstract.''"

text \<open>
  Lines 55 to 80. The result is the raised exception or the returned class, together
  with the module-level state the call leaves behind.
\<close>

definition RegisteredDataset_new ::
  "env \<Rightarrow> string \<Rightarrow> builder_cls list \<Rightarrow> (string \<rightharpoonup> pyval) \<Rightarrow> registry_state
     \<Rightarrow> (exn + builder_cls) \<times> registry_state" where
  "RegisteredDataset_new e cls_name' bases' class_dict' s =
     (let name = camelcase_to_snakecase e cls_name';
          class_dict'' = class_dict'(''name'' \<mapsto> PyStr name)
      in
        case type_new_raises e cls_name' bases' class_dict'' of
          Some x \<Rightarrow> (Inl x, s)
        | None \<Rightarrow>
            (let builder = Class cls_name' bases' class_dict'';
                 raised =
                   (if is_notebook e then None
                    else if name \<in> dom (DATASET_REGISTRY s) then
                      Some (ValueError (registered_msg name))
                    else if name \<in> dom (IN_DEVELOPMENT_REGISTRY s) then
                      Some (ValueError (in_development_msg name))
                    else if name \<in> dom (ABSTRACT_DATASET_REGISTRY s) then
                      Some (ValueError (abstract_msg name))
                    else None)
             in
               case raised of
                 Some x \<Rightarrow> (Inl x, s)
               | None \<Rightarrow>
                   (Inr builder,
                    if skip_registration_flag s then s
                    else if isabstract e builder then
                      s\<lparr>ABSTRACT_DATASET_REGISTRY :=
                          (ABSTRACT_DATASET_REGISTRY s)(name \<mapsto> builder)\<rparr>
                    else if truthy (dict_get class_dict'' ''IN_DEVELOPMENT'') then
                      s\<lparr>IN_DEVELOPMENT_REGISTRY :=
                          (IN_DEVELOPMENT_REGISTRY s)(name \<mapsto> builder)\<rparr>
                    else
                      s\<lparr>DATASET_REGISTRY := (DATASET_REGISTRY s)(name \<mapsto> builder)\<rparr>)))"

subsection \<open>\<^verbatim>\<open>skip_registration\<close> and programs that define classes\<close>

text \<open>
  The generator behind the context manager, lines 41 to 49, in its two halves: what runs
  up to the \<^verbatim>\<open>yield\<close> when the \<^verbatim>\<open>with\<close> block is entered, and the \<^verbatim>\<open>finally\<close> clause
  that runs when the block is left, by its end or by an exception.
\<close>

definition skip_registration_enter :: "registry_state \<Rightarrow> registry_state" where
  "skip_registration_enter s = s\<lparr>skip_registration_flag := True\<rparr>"

definition skip_registration_exit :: "registry_state \<Rightarrow> registry_state" where
  "skip_registration_exit s = s\<lparr>skip_registration_flag := False\<rparr>"

text \<open>
  Client code as far as the module sees it: a class statement whose metaclass is
  \<^verbatim>\<open>RegisteredDataset\<close>, a \<^verbatim>\<open>raise\<close>, and a \<^verbatim>\<open>with skip_registration():\<close> block.
\<close>

datatype stmt =
  ClassDef string "builder_cls list" "string \<rightharpoonup> pyval"
| Raise exn
| WithSkipRegistration "stmt list"

text \<open>
  Running a statement gives the exception that leaves it, if any, and the state. A block
  stops at the first exception. The \<^verbatim>\<open>finally\<close> clause runs on both ways out of a
  \<^verbatim>\<open>with\<close> block and the exception goes on.
\<close>

fun exec :: "env \<Rightarrow> stmt \<Rightarrow> registry_state \<Rightarrow> exn option \<times> registry_state"
  and exec_block :: "env \<Rightarrow> stmt list \<Rightarrow> registry_state \<Rightarrow> exn option \<times> registry_state"
where
  "exec e (ClassDef n bs d) s =
     (case RegisteredDataset_new e n bs d s of
        (Inl x, s') \<Rightarrow> (Some x, s')
      | (Inr c, s') \<Rightarrow> (None, s'))"
| "exec e (Raise x) s = (Some x, s)"
| "exec e (WithSkipRegistration body) s =
     (case exec_block e body (skip_registration_enter s) of
        (r, s') \<Rightarrow> (r, skip_registration_exit s'))"
| "exec_block e [] s = (None, s)"
| "exec_block e (c # cs) s =
     (case exec e c s of
        (Some x, s') \<Rightarrow> (Some x, s')
      | (None, s') \<Rightarrow> exec_block e cs s')"

subsection \<open>An environment to run examples in\<close>

text \<open>
  Modelled from the spec: \<^verbatim>\<open>naming.camelcase_to_snakecase\<close> is not among the sources. The
  spec calls it a camel-case-to-snake-case conversion and gives \<^verbatim>\<open>Base\<close> to \<^verbatim>\<open>base\<close> and
  \<^verbatim>\<open>MyDataset\<close> to \<^verbatim>\<open>my_dataset\<close>: an underscore goes before a capital that follows a
  small letter or a digit, and capitals become small letters. Only the examples use it.
\<close>

definition is_upper :: "char \<Rightarrow> bool" where
  "is_upper c = (65 \<le> (of_char c :: nat) \<and> (of_char c :: nat) \<le> 90)"

definition is_lower_or_digit :: "char \<Rightarrow> bool" where
  "is_lower_or_digit c =
     ((97 \<le> (of_char c :: nat) \<and> (of_char c :: nat) \<le> 122)
      \<or> (48 \<le> (of_char c :: nat) \<and> (of_char c :: nat) \<le> 57))"

definition to_lower :: "char \<Rightarrow> char" where
  "to_lower c = (if is_upper c then char_of ((of_char c :: nat) + 32) else c)"

fun snakecase_from :: "bool \<Rightarrow> string \<Rightarrow> string" where
  "snakecase_from after_small [] = []"
| "snakecase_from after_small (c # cs) =
     (if is_upper c \<and> after_small then CHR ''_'' # to_lower c # snakecase_from False cs
      else to_lower c # snakecase_from (is_lower_or_digit c) cs)"

text \<open>
  Modelled from the spec: \<^verbatim>\<open>inspect.isabstract\<close> is Python's, not the module's. The spec
  calls a class abstract when it has an unimplemented required operation; in the examples
  the one required operation is \<^verbatim>\<open>_info\<close>, and a class is abstract when that attribute
  resolves to an abstract method.
\<close>

definition example_isabstract :: "builder_cls \<Rightarrow> bool" where
  "example_isabstract c = (class_getattr c ''_info'' = Some (PyFunction True))"

text \<open>
  \<^verbatim>\<open>ABCMeta.__new__\<close> is Python's, not the module's. Of its failures the examples have
  one: there is no method resolution order, and Python raises \<^verbatim>\<open>TypeError\<close>, when a
  class stands among the bases before a class derived from it, as in
  \<^verbatim>\<open>class Other(Base, MyDataset)\<close>. The message is Python's up to the list of bases it
  ends with.
\<close>

fun derives_from :: "builder_cls \<Rightarrow> builder_cls \<Rightarrow> bool" where
  "derives_from (Class n bs d) a = (a \<in> set bs \<or> (\<exists>b \<in> set bs. derives_from b a))"

fun mro_conflict :: "builder_cls list \<Rightarrow> bool" where
  "mro_conflict [] = False"
| "mro_conflict (b # bs) = ((\<exists>c \<in> set bs. derives_from c b) \<or> mro_conflict bs)"

definition example_type_new_raises ::
  "string \<Rightarrow> builder_cls list \<Rightarrow> (string \<rightharpoonup> pyval) \<Rightarrow> exn option" where
  "example_type_new_raises n bs d =
     (if mro_conflict bs then
        Some (TypeError ''Cannot create a consistent method resolution order (MRO) for bases'')
      else None)"

definition example_env :: "bool \<Rightarrow> env" where
  "example_env notebook =
     \<lparr>camelcase_to_snakecase = snakecase_from False, is_notebook = notebook,
      isabstract = example_isabstract, type_new_raises = example_type_new_raises\<rparr>"

text \<open>
  The scenario of the spec: an abstract class \<^verbatim>\<open>Base\<close> whose \<^verbatim>\<open>_info\<close> is an abstract
  method, a class \<^verbatim>\<open>MyDataset(Base)\<close> that implements it, and the state after both have
  been defined in a freshly imported module outside a notebook.
\<close>

definition Base_body :: "string \<rightharpoonup> pyval" where
  "Base_body = [''_info'' \<mapsto> PyFunction True]"

definition MyDataset_body :: "string \<rightharpoonup> pyval" where
  "MyDataset_body = [''_info'' \<mapsto> PyFunction False]"

definition Base_cls :: builder_cls where
  "Base_cls = Class ''Base'' [] (Base_body(''name'' \<mapsto> PyStr ''base''))"

definition MyDataset_cls :: builder_cls where
  "MyDataset_cls = Class ''MyDataset'' [Base_cls] (MyDataset_body(''name'' \<mapsto> PyStr ''my_dataset''))"

text \<open>A second class that implements \<^verbatim>\<open>_info\<close>, \<^verbatim>\<open>Other(Base)\<close>.\<close>

definition Other_cls :: builder_cls where
  "Other_cls = Class ''Other'' [Base_cls] (MyDataset_body(''name'' \<mapsto> PyStr ''other''))"

text \<open>
  A class \<^verbatim>\<open>Draft(Base)\<close> that implements \<^verbatim>\<open>_info\<close> and sets \<^verbatim>\<open>IN_DEVELOPMENT = True\<close>,
  and a class \<^verbatim>\<open>Stable(Draft)\<close> with an empty body.
\<close>

definition Draft_body :: "string \<rightharpoonup> pyval" where
  "Draft_body = [''_info'' \<mapsto> PyFunction False, ''IN_DEVELOPMENT'' \<mapsto> PyBool True]"

definition Draft_cls :: builder_cls where
  "Draft_cls = Class ''Draft'' [Base_cls] (Draft_body(''name'' \<mapsto> PyStr ''draft''))"

definition Stable_cls :: builder_cls where
  "Stable_cls = Class ''Stable'' [Draft_cls] [''name'' \<mapsto> PyStr ''stable'']"

definition scenario_state :: registry_state where
  "scenario_state =
     snd (exec_block (example_env False)
       [ClassDef ''Base'' [] Base_body, ClassDef ''MyDataset'' [Base_cls] MyDataset_body]
       initial_state)"

subsection \<open>Predicates the theorems are stated with\<close>

text \<open>No name is a key of two of the three dictionaries.\<close>

definition registries_disjoint :: "registry_state \<Rightarrow> bool" where
  "registries_disjoint s =
     (dom (DATASET_REGISTRY s) \<inter> dom (IN_DEVELOPMENT_REGISTRY s) = {}
      \<and> dom (DATASET_REGISTRY s) \<inter> dom (ABSTRACT_DATASET_REGISTRY s) = {}
      \<and> dom (IN_DEVELOPMENT_REGISTRY s) \<inter> dom (ABSTRACT_DATASET_REGISTRY s) = {})"

text \<open>The name is a key of one of the three dictionaries.\<close>

definition registered :: "registry_state \<Rightarrow> string \<Rightarrow> bool" where
  "registered s name =
     (name \<in> dom (DATASET_REGISTRY s) \<or> name \<in> dom (IN_DEVELOPMENT_REGISTRY s)
      \<or> name \<in> dom (ABSTRACT_DATASET_REGISTRY s))"

text \<open>The text \<open>w\<close> occurs in the message \<open>m\<close>.\<close>

fun starts_with :: "string \<Rightarrow> string \<Rightarrow> bool" where
  "starts_with m [] = True"
| "starts_with [] (w # ws) = False"
| "starts_with (c # m) (w # ws) = (c = w \<and> starts_with m ws)"

fun mentions :: "string \<Rightarrow> string \<Rightarrow> bool" where
  "mentions [] w = (w = [])"
| "mentions (c # m) w = (starts_with (c # m) w \<or> mentions m w)"

text \<open>A statement that is not a \<^verbatim>\<open>with skip_registration()\<close> block.\<close>

fun no_with :: "stmt \<Rightarrow> bool" where
  "no_with (ClassDef n bs d) = True"
| "no_with (Raise x) = True"
| "no_with (WithSkipRegistration body) = False"

section \<open>Facts about the operations\<close>

subsection \<open>The example environment\<close>

text \<open>The conversion on the class names the examples use, computed once.\<close>

lemma snake_foo: "snakecase_from False ''Foo'' = ''foo''"
  by code_simp

lemma snake_my: "snakecase_from False ''MyDataset'' = ''my_dataset''"
  by code_simp

lemma snake_base: "snakecase_from False ''Base'' = ''base''"
  by code_simp

lemma snake_other: "snakecase_from False ''Other'' = ''other''"
  by code_simp

lemma snake_draft: "snakecase_from False ''Draft'' = ''draft''"
  by code_simp

lemma snake_stable: "snakecase_from False ''Stable'' = ''stable''"
  by code_simp

declare snakecase_from.simps [simp del]

lemma example_env_simps:
  "camelcase_to_snakecase (example_env b) = snakecase_from False"
  "is_notebook (example_env b) = b"
  "isabstract (example_env b) = example_isabstract"
  "type_new_raises (example_env b) = example_type_new_raises"
  by (simp_all add: example_env_def)

lemma example_type_new_returns:
  "example_type_new_raises n [] d = None"
  "example_type_new_raises n [b] d = None"
  by (simp_all add: example_type_new_raises_def)

subsection \<open>One call of \<^verbatim>\<open>__new__\<close>\<close>

lemma new_flag:
  "skip_registration_flag (snd (RegisteredDataset_new e n bs d s)) = skip_registration_flag s"
  by (simp add: RegisteredDataset_new_def Let_def split: option.splits)

lemma new_skipped: "skip_registration_flag s \<Longrightarrow> snd (RegisteredDataset_new e n bs d s) = s"
  by (simp add: RegisteredDataset_new_def Let_def split: option.splits)

lemma new_type_error:
  "type_new_raises e n bs (d(''name'' \<mapsto> PyStr (camelcase_to_snakecase e n))) = Some x \<Longrightarrow>
   RegisteredDataset_new e n bs d s = (Inl x, s)"
  by (simp add: RegisteredDataset_new_def Let_def)

lemma new_raises_iff:
  "type_new_raises e n bs (d(''name'' \<mapsto> PyStr (camelcase_to_snakecase e n))) = None \<Longrightarrow>
   (\<exists>x. fst (RegisteredDataset_new e n bs d s) = Inl x) \<longleftrightarrow>
   (\<not> is_notebook e \<and> registered s (camelcase_to_snakecase e n))"
  by (simp add: RegisteredDataset_new_def Let_def registered_def)

lemma new_raise_keeps:
  "fst (RegisteredDataset_new e n bs d s) = Inl x \<Longrightarrow> snd (RegisteredDataset_new e n bs d s) = s"
  by (simp add: RegisteredDataset_new_def Let_def split: if_splits option.splits)

lemma new_returns:
  "fst (RegisteredDataset_new e n bs d s) = Inr c \<Longrightarrow>
   c = Class n bs (d(''name'' \<mapsto> PyStr (camelcase_to_snakecase e n)))"
  by (auto simp add: RegisteredDataset_new_def Let_def split: if_splits option.splits)

lemma new_ok:
  "type_new_raises e n bs (d(''name'' \<mapsto> PyStr (camelcase_to_snakecase e n))) = None \<Longrightarrow>
   is_notebook e \<or> \<not> registered s (camelcase_to_snakecase e n) \<Longrightarrow>
   fst (RegisteredDataset_new e n bs d s) =
     Inr (Class n bs (d(''name'' \<mapsto> PyStr (camelcase_to_snakecase e n))))"
  by (auto simp add: RegisteredDataset_new_def Let_def registered_def)

lemma new_collides_dataset:
  "type_new_raises e n bs (d(''name'' \<mapsto> PyStr (camelcase_to_snakecase e n))) = None \<Longrightarrow>
   \<not> is_notebook e \<Longrightarrow> camelcase_to_snakecase e n \<in> dom (DATASET_REGISTRY s) \<Longrightarrow>
   fst (RegisteredDataset_new e n bs d s) =
     Inl (ValueError (registered_msg (camelcase_to_snakecase e n)))"
  by (auto simp add: RegisteredDataset_new_def Let_def)

lemma getattr_name:
  "class_getattr (Class n bs (d(''name'' \<mapsto> v))) ''name'' = Some v"
  by simp

lemma dict_get_name: "dict_get (d(''name'' \<mapsto> v)) ''IN_DEVELOPMENT'' = dict_get d ''IN_DEVELOPMENT''"
  by (simp add: dict_get_def)

lemma new_registers:
  "fst (RegisteredDataset_new e n bs d s) = Inr c \<Longrightarrow> \<not> skip_registration_flag s \<Longrightarrow>
   snd (RegisteredDataset_new e n bs d s) =
     (if isabstract e c then
        s\<lparr>ABSTRACT_DATASET_REGISTRY := (ABSTRACT_DATASET_REGISTRY s)(camelcase_to_snakecase e n \<mapsto> c)\<rparr>
      else if truthy (dict_get d ''IN_DEVELOPMENT'') then
        s\<lparr>IN_DEVELOPMENT_REGISTRY := (IN_DEVELOPMENT_REGISTRY s)(camelcase_to_snakecase e n \<mapsto> c)\<rparr>
      else
        s\<lparr>DATASET_REGISTRY := (DATASET_REGISTRY s)(camelcase_to_snakecase e n \<mapsto> c)\<rparr>)"
  by (auto simp add: RegisteredDataset_new_def Let_def dict_get_name
      split: if_splits option.splits)

lemma msgs_distinct:
  "registered_msg a \<noteq> in_development_msg b"
  "registered_msg a \<noteq> abstract_msg b"
  "in_development_msg a \<noteq> abstract_msg b"
proof -
  show "registered_msg a \<noteq> in_development_msg b"
  proof
    assume "registered_msg a = in_development_msg b"
    then have "rev (registered_msg a) = rev (in_development_msg b)" by simp
    then show False by (simp add: registered_msg_def in_development_msg_def)
  qed
  show "registered_msg a \<noteq> abstract_msg b"
  proof
    assume "registered_msg a = abstract_msg b"
    then have "rev (registered_msg a) = rev (abstract_msg b)" by simp
    then show False by (simp add: registered_msg_def abstract_msg_def)
  qed
  show "in_development_msg a \<noteq> abstract_msg b"
  proof
    assume "in_development_msg a = abstract_msg b"
    then have "rev (in_development_msg a) = rev (abstract_msg b)" by simp
    then show False by (simp add: in_development_msg_def abstract_msg_def)
  qed
qed

subsection \<open>Statements and blocks\<close>

lemma snd_exec_ClassDef:
  "snd (exec e (ClassDef n bs d) s) = snd (RegisteredDataset_new e n bs d s)"
  by (auto split: prod.splits sum.splits)

lemma fst_exec_ClassDef:
  "fst (exec e (ClassDef n bs d) s) =
     (case fst (RegisteredDataset_new e n bs d s) of Inl x \<Rightarrow> Some x | Inr c \<Rightarrow> None)"
  by (auto split: prod.splits sum.splits)

lemma snd_exec_With:
  "snd (exec e (WithSkipRegistration body) s) =
     skip_registration_exit (snd (exec_block e body (skip_registration_enter s)))"
  by (auto split: prod.splits)

lemma fst_exec_With:
  "fst (exec e (WithSkipRegistration body) s) =
     fst (exec_block e body (skip_registration_enter s))"
  by (auto split: prod.splits)

lemma exec_no_with:
  "no_with c \<Longrightarrow> skip_registration_flag s \<Longrightarrow> snd (exec e c s) = s"
proof (cases c)
  case (ClassDef n bs d)
  assume "skip_registration_flag s"
  then have "snd (RegisteredDataset_new e n bs d s) = s" by (rule new_skipped)
  then show ?thesis unfolding ClassDef by (simp only: snd_exec_ClassDef)
qed simp_all

lemma block_no_with:
  "list_all no_with body \<Longrightarrow> skip_registration_flag s \<Longrightarrow> snd (exec_block e body s) = s"
proof (induction body)
  case Nil
  then show ?case by simp
next
  case (Cons c cs)
  then have "snd (exec e c s) = s" by (simp add: exec_no_with)
  then obtain r where r: "exec e c s = (r, s)" by (cases "exec e c s") simp
  show ?case using Cons r by (cases r) simp_all
qed

lemma with_no_with:
  "list_all no_with body \<Longrightarrow>
   snd (exec e (WithSkipRegistration body) s) = s\<lparr>skip_registration_flag := False\<rparr>"
proof -
  assume "list_all no_with body"
  then have "snd (exec_block e body (skip_registration_enter s)) = skip_registration_enter s"
    by (rule block_no_with) (simp add: skip_registration_enter_def)
  then show ?thesis
    by (simp only: snd_exec_With) (simp add: skip_registration_enter_def skip_registration_exit_def)
qed

lemma new_disjoint:
  "\<not> is_notebook e \<Longrightarrow> registries_disjoint s \<Longrightarrow>
   registries_disjoint (snd (RegisteredDataset_new e n bs d s))"
  by (auto simp add: RegisteredDataset_new_def Let_def registries_disjoint_def
      split: option.splits)

lemma exec_disjoint:
  "\<not> is_notebook e \<Longrightarrow> registries_disjoint s \<Longrightarrow> registries_disjoint (snd (exec e c s))"
  "\<not> is_notebook e \<Longrightarrow> registries_disjoint s \<Longrightarrow> registries_disjoint (snd (exec_block e cs s))"
proof (induction e c s and e cs s rule: exec_exec_block.induct)
  case (1 e n bs d s)
  then have "registries_disjoint (snd (RegisteredDataset_new e n bs d s))" by (rule new_disjoint)
  then show ?case by (simp only: snd_exec_ClassDef)
next
  case (2 e x s)
  then show ?case by simp
next
  case (3 e body s)
  have "registries_disjoint (skip_registration_enter s)"
    using 3(3) by (simp add: registries_disjoint_def skip_registration_enter_def)
  then have "registries_disjoint (snd (exec_block e body (skip_registration_enter s)))"
    using 3 by simp
  then show ?case
    by (simp only: snd_exec_With) (simp add: registries_disjoint_def skip_registration_exit_def)
next
  case (4 e s)
  then show ?case by simp
next
  case (5 e c cs s)
  obtain r s' where r: "exec e c s = (r, s')" by (cases "exec e c s")
  have d: "registries_disjoint s'" using 5(1)[OF 5(3) 5(4)] r by simp
  show ?case
  proof (cases r)
    case None
    then show ?thesis using 5(2)[OF r[symmetric] None 5(3) d] r by simp
  next
    case (Some x)
    then show ?thesis using r d by simp
  qed
qed

subsection \<open>The scenario\<close>

lemma abstract_Base: "example_isabstract Base_cls"
  by (simp add: example_isabstract_def Base_cls_def Base_body_def)

lemma concrete_MyDataset: "\<not> example_isabstract MyDataset_cls"
  by (simp add: example_isabstract_def MyDataset_cls_def MyDataset_body_def)

lemma new_Base:
  "RegisteredDataset_new (example_env False) ''Base'' [] Base_body initial_state =
     (Inr Base_cls, initial_state\<lparr>ABSTRACT_DATASET_REGISTRY := [''base'' \<mapsto> Base_cls]\<rparr>)"
  using abstract_Base
  by (simp add: RegisteredDataset_new_def Let_def example_env_simps example_type_new_returns
      snake_base initial_state_def Base_cls_def)

lemma new_MyDataset:
  "RegisteredDataset_new (example_env False) ''MyDataset'' [Base_cls] MyDataset_body
     (initial_state\<lparr>ABSTRACT_DATASET_REGISTRY := [''base'' \<mapsto> Base_cls]\<rparr>) =
     (Inr MyDataset_cls,
      initial_state\<lparr>ABSTRACT_DATASET_REGISTRY := [''base'' \<mapsto> Base_cls],
        DATASET_REGISTRY := [''my_dataset'' \<mapsto> MyDataset_cls]\<rparr>)"
  using concrete_MyDataset
  by (simp add: RegisteredDataset_new_def Let_def example_env_simps example_type_new_returns
      snake_my initial_state_def MyDataset_cls_def dict_get_def MyDataset_body_def)

lemma scenario_state_eq:
  "scenario_state =
     initial_state\<lparr>ABSTRACT_DATASET_REGISTRY := [''base'' \<mapsto> Base_cls],
       DATASET_REGISTRY := [''my_dataset'' \<mapsto> MyDataset_cls]\<rparr>"
  by (simp add: scenario_state_def new_Base new_MyDataset)

lemma scenario_tables:
  "DATASET_REGISTRY scenario_state = [''my_dataset'' \<mapsto> MyDataset_cls]"
  "ABSTRACT_DATASET_REGISTRY scenario_state = [''base'' \<mapsto> Base_cls]"
  "IN_DEVELOPMENT_REGISTRY scenario_state = Map.empty"
  "skip_registration_flag scenario_state = False"
  by (simp_all add: scenario_state_eq initial_state_def)

lemma concrete_Other: "\<not> example_isabstract Other_cls"
  by (simp add: example_isabstract_def Other_cls_def MyDataset_body_def)

lemma concrete_Draft: "\<not> example_isabstract Draft_cls"
  by (simp add: example_isabstract_def Draft_cls_def Draft_body_def)

lemma marker_Draft: "truthy (dict_get Draft_body ''IN_DEVELOPMENT'')"
  by (simp add: dict_get_def Draft_body_def)

lemma marker_MyDataset: "\<not> truthy (dict_get MyDataset_body ''IN_DEVELOPMENT'')"
  by (simp add: dict_get_def MyDataset_body_def)

lemma flag_initial: "\<not> skip_registration_flag initial_state"
  by (simp add: initial_state_def)

lemma scenario_registered:
  "registered scenario_state ''my_dataset''"
  "registered scenario_state ''base''"
  "\<not> registered scenario_state ''other''"
  "\<not> registered scenario_state ''draft''"
  "\<not> registered scenario_state ''stable''"
  by (simp_all add: registered_def scenario_tables)

lemma fst_new_Base:
  "fst (RegisteredDataset_new (example_env False) ''Base'' [] Base_body initial_state) = Inr Base_cls"
  by (simp add: new_Base)

lemma fst_new_Other:
  "fst (RegisteredDataset_new (example_env b) ''Other'' [Base_cls] MyDataset_body scenario_state)
     = Inr Other_cls"
  by (simp add: new_ok example_env_simps example_type_new_returns snake_other scenario_registered Other_cls_def)

lemma fst_new_Draft:
  "fst (RegisteredDataset_new (example_env b) ''Draft'' [Base_cls] Draft_body scenario_state)
     = Inr Draft_cls"
  by (simp add: new_ok example_env_simps example_type_new_returns snake_draft scenario_registered Draft_cls_def)

lemma fst_new_MyDataset_again:
  "fst (RegisteredDataset_new (example_env False) ''MyDataset'' [Base_cls] MyDataset_body
     scenario_state) = Inl (ValueError (registered_msg ''my_dataset''))"
  using new_collides_dataset [of "example_env False" "''MyDataset''" "[Base_cls]"
      MyDataset_body scenario_state]
  by (simp add: example_env_simps example_type_new_returns snake_my scenario_tables)

lemma disjoint_initial: "registries_disjoint initial_state"
  by (simp add: registries_disjoint_def initial_state_def)

lemma new_registered_keeps:
  "\<not> is_notebook e \<Longrightarrow> registered s (camelcase_to_snakecase e n) \<Longrightarrow>
   snd (RegisteredDataset_new e n bs d s) = s"
  by (auto simp add: RegisteredDataset_new_def Let_def registered_def split: option.splits)

lemma concrete_Stable: "\<not> example_isabstract Stable_cls"
  by (simp add: example_isabstract_def Stable_cls_def Draft_cls_def Draft_body_def)

lemma fst_new_Stable:
  "fst (RegisteredDataset_new (example_env b) ''Stable'' [Draft_cls] Map.empty scenario_state)
     = Inr Stable_cls"
  by (simp add: new_ok example_env_simps example_type_new_returns snake_stable scenario_registered Stable_cls_def)

subsection \<open>Entering and leaving \<^verbatim>\<open>skip_registration\<close>\<close>

lemma registered_enter: "registered (skip_registration_enter s) x = registered s x"
  by (simp add: registered_def skip_registration_enter_def)

lemma flag_enter: "skip_registration_flag (skip_registration_enter s)"
  by (simp add: skip_registration_enter_def)

lemma flag_exit: "\<not> skip_registration_flag (skip_registration_exit s)"
  by (simp add: skip_registration_exit_def)

lemma enter_enter: "skip_registration_enter (skip_registration_enter s) = skip_registration_enter s"
  by (simp add: skip_registration_enter_def)

lemma exit_enter: "skip_registration_exit (skip_registration_enter s) = skip_registration_exit s"
  by (simp add: skip_registration_enter_def skip_registration_exit_def)

lemma exit_unset: "\<not> skip_registration_flag s \<Longrightarrow> skip_registration_exit s = s"
  by (simp add: skip_registration_exit_def)

lemma exec_ClassDef_skipped:
  assumes "skip_registration_flag s"
    and "type_new_raises e n bs (d(''name'' \<mapsto> PyStr (camelcase_to_snakecase e n))) = None"
    and "is_notebook e \<or> \<not> registered s (camelcase_to_snakecase e n)"
  shows "exec e (ClassDef n bs d) s = (None, s)"
proof (rule prod_eqI)
  have "fst (RegisteredDataset_new e n bs d s) =
      Inr (Class n bs (d(''name'' \<mapsto> PyStr (camelcase_to_snakecase e n))))"
    using assms(2,3) by (rule new_ok)
  then show "fst (exec e (ClassDef n bs d) s) = fst (None, s)"
    by (simp only: fst_exec_ClassDef) simp
  have "snd (RegisteredDataset_new e n bs d s) = s"
    using assms(1) by (rule new_skipped)
  then show "snd (exec e (ClassDef n bs d) s) = snd (None, s)"
    by (simp only: snd_exec_ClassDef) simp
qed

lemma exec_ClassDef_returns:
  assumes "fst (RegisteredDataset_new e n bs d s) = Inr c"
  shows "exec e (ClassDef n bs d) s = (None, snd (RegisteredDataset_new e n bs d s))"
  using assms by (cases "RegisteredDataset_new e n bs d s") simp

lemma scenario_exit: "skip_registration_exit scenario_state = scenario_state"
  by (simp add: exit_unset scenario_tables)

lemma exec_skipped_Draft:
  "exec (example_env False) (ClassDef ''Draft'' [Base_cls] Draft_body)
     (skip_registration_enter scenario_state) = (None, skip_registration_enter scenario_state)"
  by (rule exec_ClassDef_skipped)
    (simp_all add: flag_enter registered_enter example_env_simps example_type_new_returns
      snake_draft scenario_registered)

subsection \<open>Texts that occur in a message\<close>

lemma starts_with_append: "starts_with (w @ q) w"
  by (induction w) simp_all

lemma mentions_starts: "starts_with m w \<Longrightarrow> mentions m w"
  by (cases m; cases w) simp_all

lemma mentions_append_left: "mentions m w \<Longrightarrow> mentions (p @ m) w"
  by (induction p) simp_all

lemma mentions_infix: "mentions (p @ w @ q) w"
  by (rule mentions_append_left, rule mentions_starts, rule starts_with_append)

lemma msg_texts:
  "registered_msg ''my_dataset'' = ''Dataset with name my_dataset already registered.''"
  "in_development_msg ''my_dataset''
     = ''Dataset with name my_dataset already registered'' @ '' as in development.''"
  "abstract_msg ''my_dataset''
     = ''Dataset with name my_dataset already registered'' @ '' as abstract.''"
  by (simp_all add: registered_msg_def in_development_msg_def abstract_msg_def)

lemma msgs_mention:
  "mentions (in_development_msg a) ''in development''"
  "mentions (abstract_msg a) ''abstract''"
proof -
  have "in_development_msg a
      = (''Dataset with name '' @ a @ '' already registered as '') @ ''in development'' @ ''.''"
    by (simp add: in_development_msg_def)
  then show "mentions (in_development_msg a) ''in development''"
    by (simp only: mentions_infix)
  have "abstract_msg a
      = (''Dataset with name '' @ a @ '' already registered as '') @ ''abstract'' @ ''.''"
    by (simp add: abstract_msg_def)
  then show "mentions (abstract_msg a) ''abstract''"
    by (simp only: mentions_infix)
qed

section \<open>The claims\<close>

text \<open>
  C1, as the code has it. The collision error is not the only failure and does not come
  whenever the name is held: line 58 builds the class first, and what it raises leaves
  \<^verbatim>\<open>__new__\<close> before the check is reached. With the bases \<^verbatim>\<open>(Base, MyDataset)\<close>
  Python finds no method resolution order, so a class with the fresh name \<^verbatim>\<open>Other\<close>
  fails with \<^verbatim>\<open>TypeError\<close>, and a class with the held name \<^verbatim>\<open>MyDataset\<close> fails with
  \<^verbatim>\<open>TypeError\<close> where the claim has the collision error.
\<close>

theorem type_error_is_another_failure:
  "fst (RegisteredDataset_new (example_env False) ''Other'' [Base_cls, MyDataset_cls]
      MyDataset_body scenario_state)
     = Inl (TypeError ''Cannot create a consistent method resolution order (MRO) for bases'')
   \<and> \<not> registered scenario_state ''other''
   \<and> fst (RegisteredDataset_new (example_env False) ''MyDataset'' [Base_cls, MyDataset_cls]
      MyDataset_body scenario_state)
     = Inl (TypeError ''Cannot create a consistent method resolution order (MRO) for bases'')
   \<and> registered scenario_state ''my_dataset''"
proof -
  have "mro_conflict [Base_cls, MyDataset_cls]"
    by (simp add: MyDataset_cls_def)
  then have "example_type_new_raises n [Base_cls, MyDataset_cls] d
      = Some (TypeError ''Cannot create a consistent method resolution order (MRO) for bases'')"
    for n d
    by (simp add: example_type_new_raises_def)
  then show ?thesis
    by (simp add: new_type_error example_env_simps scenario_registered)
qed

text \<open>
  C1, amended. An exception of line 58 leaves \<^verbatim>\<open>__new__\<close> as it is and the state as it
  was. When line 58 returns, \<^verbatim>\<open>__new__\<close> raises exactly when \<^verbatim>\<open>is_notebook()\<close> is false
  and the normalized name is a key of one of the three registries, and what it raises is
  one of the module's three \<^verbatim>\<open>ValueError\<close>s. The outcome does not depend on
  \<^verbatim>\<open>_skip_registration\<close>: the check is made with the flag set as well.
\<close>

theorem new_failure_modes:
  "(type_new_raises e n bs (d(''name'' \<mapsto> PyStr (camelcase_to_snakecase e n))) = Some x \<longrightarrow>
      RegisteredDataset_new e n bs d s = (Inl x, s))
   \<and> (type_new_raises e n bs (d(''name'' \<mapsto> PyStr (camelcase_to_snakecase e n))) = None \<longrightarrow>
        ((\<exists>y. fst (RegisteredDataset_new e n bs d s) = Inl y) \<longleftrightarrow>
           (\<not> is_notebook e \<and> registered s (camelcase_to_snakecase e n)))
        \<and> (\<forall>y. fst (RegisteredDataset_new e n bs d s) = Inl y \<longrightarrow>
             y = ValueError (registered_msg (camelcase_to_snakecase e n))
             \<or> y = ValueError (in_development_msg (camelcase_to_snakecase e n))
             \<or> y = ValueError (abstract_msg (camelcase_to_snakecase e n))))
   \<and> fst (RegisteredDataset_new e n bs d (s\<lparr>skip_registration_flag := b\<rparr>)) =
       fst (RegisteredDataset_new e n bs d s)"
proof (intro conjI impI)
  assume "type_new_raises e n bs (d(''name'' \<mapsto> PyStr (camelcase_to_snakecase e n))) = Some x"
  then show "RegisteredDataset_new e n bs d s = (Inl x, s)"
    by (rule new_type_error)
next
  assume r: "type_new_raises e n bs (d(''name'' \<mapsto> PyStr (camelcase_to_snakecase e n))) = None"
  show "(\<exists>y. fst (RegisteredDataset_new e n bs d s) = Inl y) \<longleftrightarrow>
           (\<not> is_notebook e \<and> registered s (camelcase_to_snakecase e n))"
    using r by (rule new_raises_iff)
  show "\<forall>y. fst (RegisteredDataset_new e n bs d s) = Inl y \<longrightarrow>
             y = ValueError (registered_msg (camelcase_to_snakecase e n))
             \<or> y = ValueError (in_development_msg (camelcase_to_snakecase e n))
             \<or> y = ValueError (abstract_msg (camelcase_to_snakecase e n))"
    using r by (auto simp add: RegisteredDataset_new_def Let_def split: if_splits)
next
  show "fst (RegisteredDataset_new e n bs d (s\<lparr>skip_registration_flag := b\<rparr>)) =
       fst (RegisteredDataset_new e n bs d s)"
    by (simp add: RegisteredDataset_new_def Let_def split: option.splits)
qed

theorem new_failure_modes_witness:
  "(\<exists>y. fst (RegisteredDataset_new (example_env False) ''MyDataset'' [Base_cls] MyDataset_body
        (scenario_state\<lparr>skip_registration_flag := True\<rparr>)) = Inl y)
   \<and> (\<nexists>y. fst (RegisteredDataset_new (example_env True) ''MyDataset'' [Base_cls] MyDataset_body
        scenario_state) = Inl y)
   \<and> (\<nexists>y. fst (RegisteredDataset_new (example_env False) ''Other'' [Base_cls] MyDataset_body
        scenario_state) = Inl y)"
proof -
  have a: "\<not> is_notebook (example_env False)" and b: "is_notebook (example_env True)"
    by (simp_all add: example_env_simps)
  have r: "type_new_raises (example_env k) m [Base_cls] d = None" for k m d
    by (simp add: example_env_simps example_type_new_returns)
  have c: "registered scenario_state (camelcase_to_snakecase (example_env False) ''MyDataset'')"
    by (simp add: registered_def scenario_tables example_env_simps snake_my)
  have d: "\<not> registered scenario_state (camelcase_to_snakecase (example_env False) ''Other'')"
    by (simp add: registered_def scenario_tables example_env_simps snake_other)
  note t1 = new_failure_modes [of "example_env False" "''MyDataset''" "[Base_cls]"
      MyDataset_body _ scenario_state True]
  note t2 = new_failure_modes [of "example_env True" "''MyDataset''" "[Base_cls]"
      MyDataset_body _ scenario_state True]
  note t3 = new_failure_modes [of "example_env False" "''Other''" "[Base_cls]"
      MyDataset_body _ scenario_state True]
  from t1 a c r have "\<exists>y. fst (RegisteredDataset_new (example_env False) ''MyDataset'' [Base_cls]
      MyDataset_body (scenario_state\<lparr>skip_registration_flag := True\<rparr>)) = Inl y"
    by metis
  moreover from t2 b r have "\<nexists>y. fst (RegisteredDataset_new (example_env True) ''MyDataset''
      [Base_cls] MyDataset_body scenario_state) = Inl y"
    by blast
  moreover from t3 d r have "\<nexists>y. fst (RegisteredDataset_new (example_env False) ''Other''
      [Base_cls] MyDataset_body scenario_state) = Inl y"
    by blast
  ultimately show ?thesis by blast
qed

text \<open>
  C2. A call that returns with \<^verbatim>\<open>_skip_registration\<close> false files the class under its
  name: in the abstract registry when \<^verbatim>\<open>inspect.isabstract\<close> holds of it, else in the
  in-development registry when the class body binds \<^verbatim>\<open>IN_DEVELOPMENT\<close> to a true value,
  else in the dataset registry. No call puts an abstract class, or a class whose body
  sets the marker, into the dataset registry.
\<close>

theorem new_classifies:
  "(\<not> skip_registration_flag s \<and> fst (RegisteredDataset_new e n bs d s) = Inr c \<longrightarrow>
      snd (RegisteredDataset_new e n bs d s) =
        (if isabstract e c then
           s\<lparr>ABSTRACT_DATASET_REGISTRY :=
               (ABSTRACT_DATASET_REGISTRY s)(camelcase_to_snakecase e n \<mapsto> c)\<rparr>
         else if truthy (dict_get d ''IN_DEVELOPMENT'') then
           s\<lparr>IN_DEVELOPMENT_REGISTRY :=
               (IN_DEVELOPMENT_REGISTRY s)(camelcase_to_snakecase e n \<mapsto> c)\<rparr>
         else
           s\<lparr>DATASET_REGISTRY := (DATASET_REGISTRY s)(camelcase_to_snakecase e n \<mapsto> c)\<rparr>))
   \<and> (isabstract e (Class n bs (d(''name'' \<mapsto> PyStr (camelcase_to_snakecase e n)))) \<longrightarrow>
        DATASET_REGISTRY (snd (RegisteredDataset_new e n bs d s)) = DATASET_REGISTRY s)
   \<and> (truthy (dict_get d ''IN_DEVELOPMENT'') \<longrightarrow>
        DATASET_REGISTRY (snd (RegisteredDataset_new e n bs d s)) = DATASET_REGISTRY s)"
proof (intro conjI impI)
  assume "\<not> skip_registration_flag s \<and> fst (RegisteredDataset_new e n bs d s) = Inr c"
  then show "snd (RegisteredDataset_new e n bs d s) =
        (if isabstract e c then
           s\<lparr>ABSTRACT_DATASET_REGISTRY :=
               (ABSTRACT_DATASET_REGISTRY s)(camelcase_to_snakecase e n \<mapsto> c)\<rparr>
         else if truthy (dict_get d ''IN_DEVELOPMENT'') then
           s\<lparr>IN_DEVELOPMENT_REGISTRY :=
               (IN_DEVELOPMENT_REGISTRY s)(camelcase_to_snakecase e n \<mapsto> c)\<rparr>
         else
           s\<lparr>DATASET_REGISTRY := (DATASET_REGISTRY s)(camelcase_to_snakecase e n \<mapsto> c)\<rparr>)"
    using new_registers [of e n bs d s c] by blast
next
  assume "isabstract e (Class n bs (d(''name'' \<mapsto> PyStr (camelcase_to_snakecase e n))))"
  then show "DATASET_REGISTRY (snd (RegisteredDataset_new e n bs d s)) = DATASET_REGISTRY s"
    by (simp add: RegisteredDataset_new_def Let_def split: option.splits)
next
  assume "truthy (dict_get d ''IN_DEVELOPMENT'')"
  then show "DATASET_REGISTRY (snd (RegisteredDataset_new e n bs d s)) = DATASET_REGISTRY s"
    by (simp add: RegisteredDataset_new_def Let_def dict_get_name split: option.splits)
qed

theorem new_classifies_witness:
  "ABSTRACT_DATASET_REGISTRY
     (snd (RegisteredDataset_new (example_env False) ''Base'' [] Base_body initial_state)) ''base''
     = Some Base_cls
   \<and> IN_DEVELOPMENT_REGISTRY
     (snd (RegisteredDataset_new (example_env False) ''Draft'' [Base_cls] Draft_body
        scenario_state)) ''draft''
     = Some Draft_cls
   \<and> DATASET_REGISTRY
     (snd (RegisteredDataset_new (example_env False) ''Draft'' [Base_cls] Draft_body
        scenario_state))
     = DATASET_REGISTRY scenario_state
   \<and> DATASET_REGISTRY
     (snd (RegisteredDataset_new (example_env False) ''Other'' [Base_cls] MyDataset_body
        scenario_state)) ''other''
     = Some Other_cls"
proof -
  have f: "\<not> skip_registration_flag scenario_state"
    by (simp add: scenario_tables)
  note a = new_classifies [of initial_state "example_env False" "''Base''" "[]" Base_body Base_cls]
  note b = new_classifies [of scenario_state "example_env False" "''Draft''" "[Base_cls]"
      Draft_body Draft_cls]
  note c = new_classifies [of scenario_state "example_env False" "''Other''" "[Base_cls]"
      MyDataset_body Other_cls]
  have "ABSTRACT_DATASET_REGISTRY
     (snd (RegisteredDataset_new (example_env False) ''Base'' [] Base_body initial_state)) ''base''
     = Some Base_cls"
    using a flag_initial fst_new_Base abstract_Base
    by (simp add: example_env_simps snake_base)
  moreover have "IN_DEVELOPMENT_REGISTRY
     (snd (RegisteredDataset_new (example_env False) ''Draft'' [Base_cls] Draft_body
        scenario_state)) ''draft''
     = Some Draft_cls"
    using b f fst_new_Draft concrete_Draft marker_Draft
    by (simp add: example_env_simps snake_draft)
  moreover have "DATASET_REGISTRY
     (snd (RegisteredDataset_new (example_env False) ''Draft'' [Base_cls] Draft_body
        scenario_state))
     = DATASET_REGISTRY scenario_state"
    using b marker_Draft by blast
  moreover have "DATASET_REGISTRY
     (snd (RegisteredDataset_new (example_env False) ''Other'' [Base_cls] MyDataset_body
        scenario_state)) ''other''
     = Some Other_cls"
    using c f fst_new_Other concrete_Other marker_MyDataset
    by (simp add: example_env_simps snake_other)
  ultimately show ?thesis by blast
qed

text \<open>
  C3, as the code has it. Line 61 skips the check in a notebook, and there a name can
  come to be a key of two registries: \<^verbatim>\<open>Foo\<close> defined once with an abstract \<^verbatim>\<open>_info\<close> and
  once more with an implemented one is a key of the abstract and of the dataset registry.
\<close>

theorem notebook_breaks_disjointness:
  "\<not> registries_disjoint
      (snd (exec_block (example_env True)
        [ClassDef ''Foo'' [] Base_body, ClassDef ''Foo'' [] MyDataset_body] initial_state))"
  by (simp add: RegisteredDataset_new_def Let_def example_env_simps example_type_new_returns
      snake_foo example_isabstract_def Base_body_def MyDataset_body_def dict_get_def initial_state_def
      registries_disjoint_def)

text \<open>
  C3, amended. Outside a notebook no name is a key of two registries after any program of
  class definitions, raises and \<^verbatim>\<open>with skip_registration()\<close> blocks run in a freshly
  imported module; one call of \<^verbatim>\<open>__new__\<close> and one statement keep it so from any state
  that has it; and a call for a name that one of the three registries holds writes nothing.
\<close>

theorem registries_disjoint_outside_notebook:
  "\<not> is_notebook e \<longrightarrow>
     registries_disjoint (snd (exec_block e p initial_state))
     \<and> (registries_disjoint s \<longrightarrow>
          registries_disjoint (snd (RegisteredDataset_new e n bs d s))
          \<and> registries_disjoint (snd (exec e c s)))
     \<and> (registered s (camelcase_to_snakecase e n) \<longrightarrow>
          snd (RegisteredDataset_new e n bs d s) = s)"
proof
  assume nb: "\<not> is_notebook e"
  have "registries_disjoint (snd (exec_block e p initial_state))"
    using nb disjoint_initial by (rule exec_disjoint(2))
  moreover have "registries_disjoint s \<longrightarrow>
          registries_disjoint (snd (RegisteredDataset_new e n bs d s))
          \<and> registries_disjoint (snd (exec e c s))"
    using nb by (simp add: new_disjoint exec_disjoint(1) del: exec.simps)
  moreover have "registered s (camelcase_to_snakecase e n) \<longrightarrow>
          snd (RegisteredDataset_new e n bs d s) = s"
    using nb by (simp add: new_registered_keeps)
  ultimately show "registries_disjoint (snd (exec_block e p initial_state))
     \<and> (registries_disjoint s \<longrightarrow>
          registries_disjoint (snd (RegisteredDataset_new e n bs d s))
          \<and> registries_disjoint (snd (exec e c s)))
     \<and> (registered s (camelcase_to_snakecase e n) \<longrightarrow>
          snd (RegisteredDataset_new e n bs d s) = s)"
    by blast
qed

theorem registries_disjoint_outside_notebook_witness:
  "registries_disjoint
     (snd (exec_block (example_env False)
       [ClassDef ''Base'' [] Base_body, ClassDef ''MyDataset'' [Base_cls] MyDataset_body,
        WithSkipRegistration [ClassDef ''Other'' [Base_cls] MyDataset_body],
        ClassDef ''Draft'' [Base_cls] Draft_body]
       initial_state))"
proof -
  have "\<not> is_notebook (example_env False)"
    by (simp add: example_env_simps)
  with registries_disjoint_outside_notebook [of "example_env False"
      "[ClassDef ''Base'' [] Base_body, ClassDef ''MyDataset'' [Base_cls] MyDataset_body,
        WithSkipRegistration [ClassDef ''Other'' [Base_cls] MyDataset_body],
        ClassDef ''Draft'' [Base_cls] Draft_body]"]
  show ?thesis by blast
qed

text \<open>
  C4. The class a call returns has the attribute \<^verbatim>\<open>name\<close>, equal to
  \<^verbatim>\<open>camelcase_to_snakecase(cls_name)\<close>, whatever the state (so also with
  \<^verbatim>\<open>_skip_registration\<close> set); two classes of the same class name get the same \<^verbatim>\<open>name\<close>,
  whatever their bases, bodies and the state.
\<close>

theorem new_sets_name:
  "(fst (RegisteredDataset_new e n bs d s) = Inr c \<longrightarrow>
      class_dict c ''name'' = Some (PyStr (camelcase_to_snakecase e n))
      \<and> class_getattr c ''name'' = Some (PyStr (camelcase_to_snakecase e n)))
   \<and> (fst (RegisteredDataset_new e n bs d s) = Inr c
        \<and> fst (RegisteredDataset_new e n bs' d' s') = Inr c' \<longrightarrow>
      class_getattr c ''name'' = class_getattr c' ''name'')"
proof (intro conjI impI)
  assume a: "fst (RegisteredDataset_new e n bs d s) = Inr c"
  show "class_dict c ''name'' = Some (PyStr (camelcase_to_snakecase e n))"
    using new_returns [OF a] by simp
  show "class_getattr c ''name'' = Some (PyStr (camelcase_to_snakecase e n))"
    using new_returns [OF a] by simp
next
  assume "fst (RegisteredDataset_new e n bs d s) = Inr c
        \<and> fst (RegisteredDataset_new e n bs' d' s') = Inr c'"
  then have "c = Class n bs (d(''name'' \<mapsto> PyStr (camelcase_to_snakecase e n)))"
    and "c' = Class n bs' (d'(''name'' \<mapsto> PyStr (camelcase_to_snakecase e n)))"
    by (auto dest: new_returns)
  then show "class_getattr c ''name'' = class_getattr c' ''name''"
    by simp
qed

theorem new_sets_name_witness:
  "fst (RegisteredDataset_new (example_env False) ''Other'' [Base_cls] MyDataset_body
     scenario_state) = Inr Other_cls
   \<and> class_getattr Other_cls ''name'' = Some (PyStr ''other'')"
proof -
  note t = new_sets_name [of "example_env False" "''Other''" "[Base_cls]" MyDataset_body
      scenario_state Other_cls]
  from t fst_new_Other
  have "class_getattr Other_cls ''name''
      = Some (PyStr (camelcase_to_snakecase (example_env False) ''Other''))"
    by blast
  then show ?thesis
    using fst_new_Other by (simp add: example_env_simps snake_other)
qed

text \<open>
  C5. The docstring of \<^verbatim>\<open>skip_registration\<close> and the claim say that a class defined inside
  the block is not registered. The code at an input where it is: the \<^verbatim>\<open>finally\<close> clause
  of an inner block sets the flag to false instead of giving it back its value, so
  \<^verbatim>\<open>Other\<close>, defined inside the outer block after an empty inner block, is in the dataset
  registry afterwards. The same class alone in the block is not.
\<close>

theorem nested_block_registers_Other:
  "DATASET_REGISTRY
     (snd (exec (example_env False)
       (WithSkipRegistration
          [WithSkipRegistration [], ClassDef ''Other'' [Base_cls] MyDataset_body])
       scenario_state)) ''other'' = Some Other_cls
   \<and> DATASET_REGISTRY
     (snd (exec (example_env False)
       (WithSkipRegistration [ClassDef ''Other'' [Base_cls] MyDataset_body])
       scenario_state)) ''other'' = None"
proof
  let ?def = "ClassDef ''Other'' [Base_cls] MyDataset_body"
  let ?new = "RegisteredDataset_new (example_env False) ''Other'' [Base_cls] MyDataset_body
      scenario_state"
  have f: "\<not> skip_registration_flag scenario_state"
    by (simp add: scenario_tables)
  have inner: "exec (example_env False) (WithSkipRegistration [])
      (skip_registration_enter scenario_state) = (None, scenario_state)"
    by (simp add: exit_enter scenario_exit)
  have "exec (example_env False) ?def scenario_state = (None, snd ?new)"
    using fst_new_Other by (rule exec_ClassDef_returns)
  with inner have "exec_block (example_env False) [WithSkipRegistration [], ?def]
      (skip_registration_enter scenario_state) = (None, snd ?new)"
    by (simp del: exec.simps)
  then have "snd (exec (example_env False) (WithSkipRegistration [WithSkipRegistration [], ?def])
      scenario_state) = skip_registration_exit (snd ?new)"
    by (simp only: snd_exec_With) simp
  moreover have "snd ?new = scenario_state\<lparr>DATASET_REGISTRY :=
      (DATASET_REGISTRY scenario_state)(''other'' \<mapsto> Other_cls)\<rparr>"
    using new_registers [OF fst_new_Other [of False] f]
    by (simp add: example_env_simps snake_other concrete_Other marker_MyDataset)
  ultimately show "DATASET_REGISTRY
     (snd (exec (example_env False) (WithSkipRegistration [WithSkipRegistration [], ?def])
       scenario_state)) ''other'' = Some Other_cls"
    by (simp add: skip_registration_exit_def)
next
  have "list_all no_with [ClassDef ''Other'' [Base_cls] MyDataset_body]"
    by simp
  then have "snd (exec (example_env False)
       (WithSkipRegistration [ClassDef ''Other'' [Base_cls] MyDataset_body]) scenario_state)
      = scenario_state\<lparr>skip_registration_flag := False\<rparr>"
    by (rule with_no_with)
  then show "DATASET_REGISTRY
     (snd (exec (example_env False)
       (WithSkipRegistration [ClassDef ''Other'' [Base_cls] MyDataset_body])
       scenario_state)) ''other'' = None"
    by (simp add: scenario_tables)
qed

text \<open>
  C6. A call that raises leaves the module-level state, the three registries included, as
  it was, and so does the class statement that made the call.
\<close>

theorem new_raise_changes_nothing:
  "(fst (RegisteredDataset_new e n bs d s) = Inl x \<longrightarrow>
      snd (RegisteredDataset_new e n bs d s) = s)
   \<and> (fst (exec e (ClassDef n bs d) s) = Some x \<longrightarrow> snd (exec e (ClassDef n bs d) s) = s)"
proof (intro conjI impI)
  assume "fst (RegisteredDataset_new e n bs d s) = Inl x"
  then show "snd (RegisteredDataset_new e n bs d s) = s"
    by (rule new_raise_keeps)
next
  assume a: "fst (exec e (ClassDef n bs d) s) = Some x"
  have "fst (RegisteredDataset_new e n bs d s) = Inl x"
  proof (cases "fst (RegisteredDataset_new e n bs d s)")
    case (Inl y)
    with a show ?thesis by (simp add: fst_exec_ClassDef del: exec.simps)
  next
    case (Inr c)
    with a show ?thesis by (simp add: fst_exec_ClassDef del: exec.simps)
  qed
  then have "snd (RegisteredDataset_new e n bs d s) = s"
    by (rule new_raise_keeps)
  then show "snd (exec e (ClassDef n bs d) s) = s"
    by (simp only: snd_exec_ClassDef)
qed

theorem new_raise_changes_nothing_witness:
  "fst (RegisteredDataset_new (example_env False) ''MyDataset'' [Base_cls] MyDataset_body
     scenario_state) = Inl (ValueError (registered_msg ''my_dataset''))
   \<and> snd (RegisteredDataset_new (example_env False) ''MyDataset'' [Base_cls] MyDataset_body
     scenario_state) = scenario_state"
  using new_raise_changes_nothing [of "example_env False" "''MyDataset''" "[Base_cls]"
      MyDataset_body scenario_state "ValueError (registered_msg ''my_dataset'')"]
    fst_new_MyDataset_again
  by blast

text \<open>
  C7, as the code has it. Redefining \<^verbatim>\<open>MyDataset\<close>, whose name the dataset registry
  holds, raises \<^verbatim>\<open>Dataset with name my_dataset already registered.\<close> The text names no
  registry, neither by the spec's name nor by the module's: it is what the other two
  wordings begin with, before they add \<^verbatim>\<open>as in development\<close> or \<^verbatim>\<open>as abstract\<close>.
\<close>

theorem dataset_wording_names_no_table:
  "fst (RegisteredDataset_new (example_env False) ''MyDataset'' [Base_cls] MyDataset_body
      scenario_state) = Inl (ValueError ''Dataset with name my_dataset already registered.'')
   \<and> \<not> mentions ''Dataset with name my_dataset already registered.'' ''ConcreteRegistry''
   \<and> \<not> mentions ''Dataset with name my_dataset already registered.'' ''DATASET_REGISTRY''
   \<and> in_development_msg ''my_dataset''
       = ''Dataset with name my_dataset already registered'' @ '' as in development.''
   \<and> abstract_msg ''my_dataset''
       = ''Dataset with name my_dataset already registered'' @ '' as abstract.''"
proof -
  have "\<not> mentions ''Dataset with name my_dataset already registered.'' ''ConcreteRegistry''"
    by code_simp
  moreover
  have "\<not> mentions ''Dataset with name my_dataset already registered.'' ''DATASET_REGISTRY''"
    by code_simp
  ultimately show ?thesis
    using fst_new_MyDataset_again msg_texts by simp
qed

text \<open>
  C7, amended. When line 58 returns, every error \<^verbatim>\<open>__new__\<close> raises has one of three
  wordings, and the wording used belongs to a registry that holds the name: the plain
  \<^verbatim>\<open>already registered.\<close> to the dataset registry, \<^verbatim>\<open>as in development.\<close> and
  \<^verbatim>\<open>as abstract.\<close> to the other two, which they name. No two wordings give the same
  message, whatever the names, so the message tells the registry. A name the dataset
  registry holds is reported, outside a notebook, with the plain wording.
\<close>

theorem new_error_wording:
  "(type_new_raises e n bs (d(''name'' \<mapsto> PyStr (camelcase_to_snakecase e n))) = None
      \<and> fst (RegisteredDataset_new e n bs d s) = Inl x \<longrightarrow>
      (x = ValueError
             (''Dataset with name '' @ camelcase_to_snakecase e n @ '' already registered.'')
         \<and> camelcase_to_snakecase e n \<in> dom (DATASET_REGISTRY s))
      \<or> (x = ValueError
             (''Dataset with name '' @ camelcase_to_snakecase e n
                @ '' already registered as in development.'')
         \<and> camelcase_to_snakecase e n \<in> dom (IN_DEVELOPMENT_REGISTRY s))
      \<or> (x = ValueError
             (''Dataset with name '' @ camelcase_to_snakecase e n
                @ '' already registered as abstract.'')
         \<and> camelcase_to_snakecase e n \<in> dom (ABSTRACT_DATASET_REGISTRY s)))
   \<and> registered_msg a \<noteq> in_development_msg b
   \<and> registered_msg a \<noteq> abstract_msg b
   \<and> in_development_msg a \<noteq> abstract_msg b
   \<and> mentions (in_development_msg a) ''in development''
   \<and> mentions (abstract_msg a) ''abstract''
   \<and> (type_new_raises e n bs (d(''name'' \<mapsto> PyStr (camelcase_to_snakecase e n))) = None
        \<and> \<not> is_notebook e \<and> camelcase_to_snakecase e n \<in> dom (DATASET_REGISTRY s) \<longrightarrow>
        fst (RegisteredDataset_new e n bs d s)
          = Inl (ValueError
              (''Dataset with name '' @ camelcase_to_snakecase e n @ '' already registered.'')))"
proof (intro conjI)
  show "type_new_raises e n bs (d(''name'' \<mapsto> PyStr (camelcase_to_snakecase e n))) = None
      \<and> fst (RegisteredDataset_new e n bs d s) = Inl x \<longrightarrow>
      (x = ValueError
             (''Dataset with name '' @ camelcase_to_snakecase e n @ '' already registered.'')
         \<and> camelcase_to_snakecase e n \<in> dom (DATASET_REGISTRY s))
      \<or> (x = ValueError
             (''Dataset with name '' @ camelcase_to_snakecase e n
                @ '' already registered as in development.'')
         \<and> camelcase_to_snakecase e n \<in> dom (IN_DEVELOPMENT_REGISTRY s))
      \<or> (x = ValueError
             (''Dataset with name '' @ camelcase_to_snakecase e n
                @ '' already registered as abstract.'')
         \<and> camelcase_to_snakecase e n \<in> dom (ABSTRACT_DATASET_REGISTRY s))"
    by (auto simp add: RegisteredDataset_new_def Let_def registered_msg_def
        in_development_msg_def abstract_msg_def split: if_splits)
  show "type_new_raises e n bs (d(''name'' \<mapsto> PyStr (camelcase_to_snakecase e n))) = None
        \<and> \<not> is_notebook e \<and> camelcase_to_snakecase e n \<in> dom (DATASET_REGISTRY s) \<longrightarrow>
        fst (RegisteredDataset_new e n bs d s)
          = Inl (ValueError
              (''Dataset with name '' @ camelcase_to_snakecase e n @ '' already registered.''))"
    using new_collides_dataset [of e n bs d s] by (simp add: registered_msg_def)
qed (rule msgs_distinct msgs_mention)+

theorem new_error_wording_witness:
  "fst (RegisteredDataset_new (example_env False) ''MyDataset'' [Base_cls] MyDataset_body
     scenario_state) = Inl (ValueError ''Dataset with name my_dataset already registered.'')"
proof -
  have "type_new_raises (example_env False) ''MyDataset'' [Base_cls]
        (MyDataset_body(''name'' \<mapsto> PyStr (camelcase_to_snakecase (example_env False) ''MyDataset'')))
      = None
      \<and> \<not> is_notebook (example_env False)
      \<and> camelcase_to_snakecase (example_env False) ''MyDataset''
          \<in> dom (DATASET_REGISTRY scenario_state)"
    by (simp add: example_env_simps example_type_new_returns snake_my scenario_tables)
  with new_error_wording [of "example_env False" "''MyDataset''" "[Base_cls]"
      MyDataset_body scenario_state]
  have "fst (RegisteredDataset_new (example_env False) ''MyDataset'' [Base_cls] MyDataset_body
      scenario_state)
      = Inl (ValueError (''Dataset with name ''
          @ camelcase_to_snakecase (example_env False) ''MyDataset'' @ '' already registered.''))"
    by blast
  then show ?thesis
    by (simp add: example_env_simps snake_my)
qed

text \<open>
  C8. After a call that returns, the class has its \<^verbatim>\<open>name\<close> attribute, and the
  module-level state is the old one when \<^verbatim>\<open>_skip_registration\<close> is set, and else the old
  one with the name bound to the class in the one registry the classification selects:
  the other two registries and the flag are as before.
\<close>

theorem new_frame:
  "fst (RegisteredDataset_new e n bs d s) = Inr c \<longrightarrow>
     class_getattr c ''name'' = Some (PyStr (camelcase_to_snakecase e n))
     \<and> snd (RegisteredDataset_new e n bs d s) =
        (if skip_registration_flag s then s
         else if isabstract e c then
           s\<lparr>ABSTRACT_DATASET_REGISTRY :=
               (ABSTRACT_DATASET_REGISTRY s)(camelcase_to_snakecase e n \<mapsto> c)\<rparr>
         else if truthy (dict_get d ''IN_DEVELOPMENT'') then
           s\<lparr>IN_DEVELOPMENT_REGISTRY :=
               (IN_DEVELOPMENT_REGISTRY s)(camelcase_to_snakecase e n \<mapsto> c)\<rparr>
         else
           s\<lparr>DATASET_REGISTRY := (DATASET_REGISTRY s)(camelcase_to_snakecase e n \<mapsto> c)\<rparr>)"
proof
  assume a: "fst (RegisteredDataset_new e n bs d s) = Inr c"
  have "class_getattr c ''name'' = Some (PyStr (camelcase_to_snakecase e n))"
    using new_returns [OF a] by simp
  moreover have "skip_registration_flag s \<Longrightarrow> snd (RegisteredDataset_new e n bs d s) = s"
    by (rule new_skipped)
  ultimately show "class_getattr c ''name'' = Some (PyStr (camelcase_to_snakecase e n))
     \<and> snd (RegisteredDataset_new e n bs d s) =
        (if skip_registration_flag s then s
         else if isabstract e c then
           s\<lparr>ABSTRACT_DATASET_REGISTRY :=
               (ABSTRACT_DATASET_REGISTRY s)(camelcase_to_snakecase e n \<mapsto> c)\<rparr>
         else if truthy (dict_get d ''IN_DEVELOPMENT'') then
           s\<lparr>IN_DEVELOPMENT_REGISTRY :=
               (IN_DEVELOPMENT_REGISTRY s)(camelcase_to_snakecase e n \<mapsto> c)\<rparr>
         else
           s\<lparr>DATASET_REGISTRY := (DATASET_REGISTRY s)(camelcase_to_snakecase e n \<mapsto> c)\<rparr>)"
    using new_registers [OF a] by simp
qed

theorem new_frame_witness:
  "snd (RegisteredDataset_new (example_env False) ''Other'' [Base_cls] MyDataset_body
     scenario_state)
     = scenario_state\<lparr>DATASET_REGISTRY := [''my_dataset'' \<mapsto> MyDataset_cls, ''other'' \<mapsto> Other_cls]\<rparr>"
proof -
  note t = new_frame [of "example_env False" "''Other''" "[Base_cls]" MyDataset_body
      scenario_state Other_cls]
  from t fst_new_Other
  have "snd (RegisteredDataset_new (example_env False) ''Other'' [Base_cls] MyDataset_body
      scenario_state) =
      (if skip_registration_flag scenario_state then scenario_state
       else if isabstract (example_env False) Other_cls then
         scenario_state\<lparr>ABSTRACT_DATASET_REGISTRY :=
           (ABSTRACT_DATASET_REGISTRY scenario_state)
             (camelcase_to_snakecase (example_env False) ''Other'' \<mapsto> Other_cls)\<rparr>
       else if truthy (dict_get MyDataset_body ''IN_DEVELOPMENT'') then
         scenario_state\<lparr>IN_DEVELOPMENT_REGISTRY :=
           (IN_DEVELOPMENT_REGISTRY scenario_state)
             (camelcase_to_snakecase (example_env False) ''Other'' \<mapsto> Other_cls)\<rparr>
       else
         scenario_state\<lparr>DATASET_REGISTRY :=
           (DATASET_REGISTRY scenario_state)
             (camelcase_to_snakecase (example_env False) ''Other'' \<mapsto> Other_cls)\<rparr>)"
    by blast
  then show ?thesis
    by (simp add: example_env_simps snake_other scenario_tables concrete_Other marker_MyDataset)
qed

text \<open>
  C9. The flag is one boolean that the \<^verbatim>\<open>finally\<close> clause sets to false, so an inner
  \<^verbatim>\<open>with skip_registration()\<close> block that ends switches the outer one off: a class
  defined after it, still inside the outer block, is filed in a registry.
\<close>

theorem nested_skip_registration_registers:
  "exec_block e inner (skip_registration_enter (skip_registration_enter s)) = (None, s1)
   \<and> fst (RegisteredDataset_new e n bs d (skip_registration_exit s1)) = Inr c
   \<longrightarrow>
   snd (exec e (WithSkipRegistration [WithSkipRegistration inner, ClassDef n bs d]) s) =
     (if isabstract e c then
        (skip_registration_exit s1)\<lparr>ABSTRACT_DATASET_REGISTRY :=
          (ABSTRACT_DATASET_REGISTRY s1)(camelcase_to_snakecase e n \<mapsto> c)\<rparr>
      else if truthy (dict_get d ''IN_DEVELOPMENT'') then
        (skip_registration_exit s1)\<lparr>IN_DEVELOPMENT_REGISTRY :=
          (IN_DEVELOPMENT_REGISTRY s1)(camelcase_to_snakecase e n \<mapsto> c)\<rparr>
      else
        (skip_registration_exit s1)\<lparr>DATASET_REGISTRY :=
          (DATASET_REGISTRY s1)(camelcase_to_snakecase e n \<mapsto> c)\<rparr>)
   \<and> registered
       (snd (exec e (WithSkipRegistration [WithSkipRegistration inner, ClassDef n bs d]) s))
       (camelcase_to_snakecase e n)"
proof (intro impI, elim conjE)
  let ?outer = "WithSkipRegistration [WithSkipRegistration inner, ClassDef n bs d]"
  let ?s2 = "snd (RegisteredDataset_new e n bs d (skip_registration_exit s1))"
  assume i: "exec_block e inner (skip_registration_enter (skip_registration_enter s)) = (None, s1)"
    and r: "fst (RegisteredDataset_new e n bs d (skip_registration_exit s1)) = Inr c"
  have inner: "exec e (WithSkipRegistration inner) (skip_registration_enter s)
      = (None, skip_registration_exit s1)"
    using i by simp
  have cd: "exec e (ClassDef n bs d) (skip_registration_exit s1) = (None, ?s2)"
    using r by (rule exec_ClassDef_returns)
  have "exec_block e [WithSkipRegistration inner, ClassDef n bs d] (skip_registration_enter s)
      = (None, ?s2)"
    using inner cd by (simp del: exec.simps)
  then have out: "snd (exec e ?outer s) = skip_registration_exit ?s2"
    by (simp only: snd_exec_With) simp
  have s2: "?s2 =
     (if isabstract e c then
        (skip_registration_exit s1)\<lparr>ABSTRACT_DATASET_REGISTRY :=
          (ABSTRACT_DATASET_REGISTRY (skip_registration_exit s1))(camelcase_to_snakecase e n \<mapsto> c)\<rparr>
      else if truthy (dict_get d ''IN_DEVELOPMENT'') then
        (skip_registration_exit s1)\<lparr>IN_DEVELOPMENT_REGISTRY :=
          (IN_DEVELOPMENT_REGISTRY (skip_registration_exit s1))(camelcase_to_snakecase e n \<mapsto> c)\<rparr>
      else
        (skip_registration_exit s1)\<lparr>DATASET_REGISTRY :=
          (DATASET_REGISTRY (skip_registration_exit s1))(camelcase_to_snakecase e n \<mapsto> c)\<rparr>)"
    using r flag_exit by (rule new_registers)
  have "\<not> skip_registration_flag ?s2"
    by (simp add: new_flag flag_exit)
  then have "skip_registration_exit ?s2 = ?s2"
    by (rule exit_unset)
  with out have eq: "snd (exec e ?outer s) = ?s2"
    by simp
  show "snd (exec e ?outer s) =
     (if isabstract e c then
        (skip_registration_exit s1)\<lparr>ABSTRACT_DATASET_REGISTRY :=
          (ABSTRACT_DATASET_REGISTRY s1)(camelcase_to_snakecase e n \<mapsto> c)\<rparr>
      else if truthy (dict_get d ''IN_DEVELOPMENT'') then
        (skip_registration_exit s1)\<lparr>IN_DEVELOPMENT_REGISTRY :=
          (IN_DEVELOPMENT_REGISTRY s1)(camelcase_to_snakecase e n \<mapsto> c)\<rparr>
      else
        (skip_registration_exit s1)\<lparr>DATASET_REGISTRY :=
          (DATASET_REGISTRY s1)(camelcase_to_snakecase e n \<mapsto> c)\<rparr>)
   \<and> registered (snd (exec e ?outer s)) (camelcase_to_snakecase e n)"
    unfolding eq s2 by (simp add: skip_registration_exit_def registered_def)
qed


theorem nested_skip_registration_registers_witness:
  "DATASET_REGISTRY
     (snd (exec (example_env False)
       (WithSkipRegistration
          [WithSkipRegistration [ClassDef ''Draft'' [Base_cls] Draft_body],
           ClassDef ''Other'' [Base_cls] MyDataset_body])
       scenario_state)) ''other'' = Some Other_cls
   \<and> registered
     (snd (exec (example_env False)
       (WithSkipRegistration
          [WithSkipRegistration [ClassDef ''Draft'' [Base_cls] Draft_body],
           ClassDef ''Other'' [Base_cls] MyDataset_body])
       scenario_state)) ''other''"
proof -
  let ?inner = "[ClassDef ''Draft'' [Base_cls] Draft_body]"
  let ?s1 = "skip_registration_enter scenario_state"
  let ?outer = "WithSkipRegistration
          [WithSkipRegistration ?inner, ClassDef ''Other'' [Base_cls] MyDataset_body]"
  have x: "skip_registration_exit ?s1 = scenario_state"
    by (simp add: exit_enter scenario_exit)
  have "exec_block (example_env False) ?inner
      (skip_registration_enter (skip_registration_enter scenario_state)) = (None, ?s1)"
    using exec_skipped_Draft by (simp add: enter_enter del: exec.simps)
  moreover have "fst (RegisteredDataset_new (example_env False) ''Other'' [Base_cls]
      MyDataset_body (skip_registration_exit ?s1)) = Inr Other_cls"
    unfolding x by (rule fst_new_Other)
  ultimately have c: "snd (exec (example_env False) ?outer scenario_state) =
     (if isabstract (example_env False) Other_cls then
        (skip_registration_exit ?s1)\<lparr>ABSTRACT_DATASET_REGISTRY :=
          (ABSTRACT_DATASET_REGISTRY ?s1)
            (camelcase_to_snakecase (example_env False) ''Other'' \<mapsto> Other_cls)\<rparr>
      else if truthy (dict_get MyDataset_body ''IN_DEVELOPMENT'') then
        (skip_registration_exit ?s1)\<lparr>IN_DEVELOPMENT_REGISTRY :=
          (IN_DEVELOPMENT_REGISTRY ?s1)
            (camelcase_to_snakecase (example_env False) ''Other'' \<mapsto> Other_cls)\<rparr>
      else
        (skip_registration_exit ?s1)\<lparr>DATASET_REGISTRY :=
          (DATASET_REGISTRY ?s1)
            (camelcase_to_snakecase (example_env False) ''Other'' \<mapsto> Other_cls)\<rparr>)"
    and r: "registered (snd (exec (example_env False) ?outer scenario_state))
       (camelcase_to_snakecase (example_env False) ''Other'')"
    using nested_skip_registration_registers [of "example_env False" ?inner scenario_state ?s1
        "''Other''" "[Base_cls]" MyDataset_body Other_cls]
    by blast+
  from c have a: "DATASET_REGISTRY (snd (exec (example_env False) ?outer scenario_state)) ''other''
      = Some Other_cls"
    by (simp add: example_env_simps snake_other concrete_Other marker_MyDataset
        del: exec.simps)
  from r have b: "registered (snd (exec (example_env False) ?outer scenario_state)) ''other''"
    by (simp add: example_env_simps snake_other del: exec.simps)
  from a b show ?thesis
    by blast
qed

text \<open>
  C10. The marker is read from the class body, not from the class: a class that is not
  abstract, whose only base sets \<^verbatim>\<open>IN_DEVELOPMENT\<close> to a true value in its body and whose
  own body does not bind it, has the true marker as an attribute and is filed in the
  dataset registry; the in-development registry stays as it was.
\<close>

theorem in_development_not_inherited:
  "class_dict parent ''IN_DEVELOPMENT'' = Some v \<and> truthy v
   \<and> d ''IN_DEVELOPMENT'' = None
   \<and> \<not> skip_registration_flag s
   \<and> \<not> isabstract e c
   \<and> fst (RegisteredDataset_new e n [parent] d s) = Inr c
   \<longrightarrow> class_getattr c ''IN_DEVELOPMENT'' = Some v
     \<and> snd (RegisteredDataset_new e n [parent] d s) =
         s\<lparr>DATASET_REGISTRY := (DATASET_REGISTRY s)(camelcase_to_snakecase e n \<mapsto> c)\<rparr>
     \<and> IN_DEVELOPMENT_REGISTRY (snd (RegisteredDataset_new e n [parent] d s)) =
         IN_DEVELOPMENT_REGISTRY s"
proof (intro impI, elim conjE)
  assume p: "class_dict parent ''IN_DEVELOPMENT'' = Some v" and "truthy v"
    and d: "d ''IN_DEVELOPMENT'' = None"
    and f: "\<not> skip_registration_flag s"
    and a: "\<not> isabstract e c"
    and r: "fst (RegisteredDataset_new e n [parent] d s) = Inr c"
  have c: "c = Class n [parent] (d(''name'' \<mapsto> PyStr (camelcase_to_snakecase e n)))"
    using r by (rule new_returns)
  have g: "class_getattr c ''IN_DEVELOPMENT'' = Some v"
    using p d unfolding c by (cases parent) simp
  have m: "\<not> truthy (dict_get d ''IN_DEVELOPMENT'')"
    using d by (simp add: dict_get_def)
  have s: "snd (RegisteredDataset_new e n [parent] d s) =
         s\<lparr>DATASET_REGISTRY := (DATASET_REGISTRY s)(camelcase_to_snakecase e n \<mapsto> c)\<rparr>"
    using new_registers [OF r f] a m by simp
  show "class_getattr c ''IN_DEVELOPMENT'' = Some v
     \<and> snd (RegisteredDataset_new e n [parent] d s) =
         s\<lparr>DATASET_REGISTRY := (DATASET_REGISTRY s)(camelcase_to_snakecase e n \<mapsto> c)\<rparr>
     \<and> IN_DEVELOPMENT_REGISTRY (snd (RegisteredDataset_new e n [parent] d s)) =
         IN_DEVELOPMENT_REGISTRY s"
    using g s by simp
qed

theorem in_development_not_inherited_witness:
  "class_getattr Stable_cls ''IN_DEVELOPMENT'' = Some (PyBool True)
   \<and> DATASET_REGISTRY
       (snd (RegisteredDataset_new (example_env False) ''Stable'' [Draft_cls] Map.empty
          scenario_state)) ''stable'' = Some Stable_cls
   \<and> IN_DEVELOPMENT_REGISTRY
       (snd (RegisteredDataset_new (example_env False) ''Stable'' [Draft_cls] Map.empty
          scenario_state)) = Map.empty"
proof -
  have p: "class_dict Draft_cls ''IN_DEVELOPMENT'' = Some (PyBool True)"
    by (simp add: Draft_cls_def Draft_body_def)
  have a: "\<not> isabstract (example_env False) Stable_cls"
    by (simp add: example_env_simps concrete_Stable)
  have f: "\<not> skip_registration_flag scenario_state"
    by (simp add: scenario_tables)
  have "class_dict Draft_cls ''IN_DEVELOPMENT'' = Some (PyBool True) \<and> truthy (PyBool True)
      \<and> (Map.empty :: string \<rightharpoonup> pyval) ''IN_DEVELOPMENT'' = None
      \<and> \<not> skip_registration_flag scenario_state
      \<and> \<not> isabstract (example_env False) Stable_cls
      \<and> fst (RegisteredDataset_new (example_env False) ''Stable'' [Draft_cls] Map.empty
          scenario_state) = Inr Stable_cls"
    using p a f fst_new_Stable [of False] by simp
  with in_development_not_inherited [of Draft_cls "PyBool True" Map.empty scenario_state
      "example_env False" Stable_cls "''Stable''"]
  have "class_getattr Stable_cls ''IN_DEVELOPMENT'' = Some (PyBool True)
     \<and> snd (RegisteredDataset_new (example_env False) ''Stable'' [Draft_cls] Map.empty
          scenario_state) =
         scenario_state\<lparr>DATASET_REGISTRY := (DATASET_REGISTRY scenario_state)
           (camelcase_to_snakecase (example_env False) ''Stable'' \<mapsto> Stable_cls)\<rparr>
     \<and> IN_DEVELOPMENT_REGISTRY
         (snd (RegisteredDataset_new (example_env False) ''Stable'' [Draft_cls] Map.empty
          scenario_state)) = IN_DEVELOPMENT_REGISTRY scenario_state"
    by blast
  then show ?thesis
    by (simp add: example_env_simps snake_stable scenario_tables)
qed

end
